theory Spec2Isabelle
  imports Main "HOL-Library.AList"
begin

section \<open>Errors\<close>

text \<open>
  The connector \<^verbatim>\<open>redis_notes.py\<close> raises nothing itself; every exception comes from a
  library call it makes. Each of them is a value here:
  \<^item> \<open>OverflowError\<close>, \<open>OSError\<close>: \<^verbatim>\<open>time.gmtime\<close> on a timestamp outside the platform's range;
  \<^item> \<open>ValueError\<close>: \<^verbatim>\<open>int(...)\<close> on a string that is not an integer literal;
  \<^item> \<open>AttributeError\<close>: \<^verbatim>\<open>note.decode\<close> on the \<^verbatim>\<open>None\<close> that \<^verbatim>\<open>mget\<close> gives for a missing value;
  \<^item> \<open>ResponseError\<close>: the Redis server refuses a command (a set command on a key that holds
    a string or the converse, a set command with no key).
\<close>

datatype error = OverflowError | OSError | ValueError | AttributeError | ResponseError

section \<open>Text\<close>

text \<open>
  Python strings are modelled as \<open>string\<close>, one \<open>char\<close> per code point, so the model covers
  the texts over the code points 0 to 255. \<open>ord\<close> is the code point.
\<close>

definition ord :: "char \<Rightarrow> nat" where
  "ord c = of_char c"

text \<open>\<^verbatim>\<open>\w\<close> of a Python 3 \<^verbatim>\<open>str\<close> pattern: the alphanumeric code points and the underscore.\<close>

definition is_word_char :: "char \<Rightarrow> bool" where
  "is_word_char c = (let n = ord c in
     (48 \<le> n \<and> n \<le> 57) \<or> (65 \<le> n \<and> n \<le> 90) \<or> n = 95 \<or> (97 \<le> n \<and> n \<le> 122) \<or>
     n = 170 \<or> n = 178 \<or> n = 179 \<or> n = 181 \<or> n = 185 \<or> n = 186 \<or> (188 \<le> n \<and> n \<le> 190) \<or>
     (192 \<le> n \<and> n \<le> 214) \<or> (216 \<le> n \<and> n \<le> 246) \<or> (248 \<le> n \<and> n \<le> 255))"

text \<open>
  The character class \<^verbatim>\<open>[A-z0-9-_]\<close>: the range from \<^verbatim>\<open>A\<close> (65) to \<^verbatim>\<open>z\<close> (122), the digits,
  the hyphen (45) and the underscore (95, inside the first range already).
\<close>

definition is_tag_char :: "char \<Rightarrow> bool" where
  "is_tag_char c = (let n = ord c in
     (65 \<le> n \<and> n \<le> 122) \<or> (48 \<le> n \<and> n \<le> 57) \<or> n = 45 \<or> n = 95)"

text \<open>\<^verbatim>\<open>str.lower\<close>, one character at a time: the upper-case letters move up by 32.\<close>

definition lower_char :: "char \<Rightarrow> char" where
  "lower_char c = (let n = ord c in
     if (65 \<le> n \<and> n \<le> 90) \<or> (192 \<le> n \<and> n \<le> 214) \<or> (216 \<le> n \<and> n \<le> 222)
     then char_of (n + 32) else c)"

definition lower :: "string \<Rightarrow> string" where
  "lower s = map lower_char s"

text \<open>\<^verbatim>\<open>re.findall(r'(\w+)', line)\<close>: the maximal runs of word characters, left to right.\<close>

function findall_words :: "string \<Rightarrow> string list" where
  "findall_words [] = []"
| "findall_words (c # cs) =
     (if is_word_char c
      then (c # takeWhile is_word_char cs) # findall_words (dropWhile is_word_char cs)
      else findall_words cs)"
  by pat_completeness auto
termination
  by (relation "measure length") (auto simp: length_dropWhile_le less_Suc_eq_le)

text \<open>
  \<^verbatim>\<open>re.findall(r'(#[A-z0-9-_]+)', line)\<close>: a \<^verbatim>\<open>#\<close> followed by at least one character of the
  class, with the longest run of them; the search goes on after the match, and one
  position further where there is none.
\<close>

function findall_tags :: "string \<Rightarrow> string list" where
  "findall_tags [] = []"
| "findall_tags (c # cs) =
     (if c = CHR ''#'' \<and> takeWhile is_tag_char cs \<noteq> []
      then (c # takeWhile is_tag_char cs) # findall_tags (dropWhile is_tag_char cs)
      else findall_tags cs)"
  by pat_completeness auto
termination
  by (relation "measure length") (auto simp: length_dropWhile_le less_Suc_eq_le)

subsection \<open>Integers as text\<close>

text \<open>\<^verbatim>\<open>"%s" % n\<close> for an integer \<open>n\<close>: its decimal digits, after a minus sign if negative.\<close>

definition digit :: "nat \<Rightarrow> char" where
  "digit d = char_of (48 + d)"

function digits :: "nat \<Rightarrow> string" where
  "digits n = (if n < 10 then [digit n] else digits (n div 10) @ [digit (n mod 10)])"
  by pat_completeness auto
termination
  by (relation "measure id") auto

definition str :: "int \<Rightarrow> string" where
  "str i = (if i < 0 then CHR ''-'' # digits (nat (- i)) else digits (nat i))"

text \<open>
  \<^verbatim>\<open>int(s)\<close> for a string: white space around it is dropped, then an optional sign, then
  decimal digits, where single underscores may stand between two digits. Anything else is
  a \<^verbatim>\<open>ValueError\<close>, here \<open>None\<close>.
\<close>

definition is_digit :: "char \<Rightarrow> bool" where
  "is_digit c = (48 \<le> ord c \<and> ord c \<le> 57)"

definition is_int_space :: "char \<Rightarrow> bool" where
  "is_int_space c = (let n = ord c in (9 \<le> n \<and> n \<le> 13) \<or> n = 32 \<or> n = 133 \<or> n = 160)"

definition strip :: "string \<Rightarrow> string" where
  "strip s = rev (dropWhile is_int_space (rev (dropWhile is_int_space s)))"

fun digit_groups :: "nat \<Rightarrow> bool \<Rightarrow> string \<Rightarrow> nat option" where
  "digit_groups acc after_digit [] = (if after_digit then Some acc else None)"
| "digit_groups acc after_digit (c # cs) =
     (if is_digit c then digit_groups (10 * acc + (ord c - 48)) True cs
      else if c = CHR ''_'' \<and> after_digit then digit_groups acc False cs
      else None)"

definition py_int :: "string \<Rightarrow> int option" where
  "py_int s =
     (case strip s of
        [] \<Rightarrow> None
      | c # r \<Rightarrow>
          if c = CHR ''-'' then map_option (\<lambda>n. - int n) (digit_groups 0 False r)
          else if c = CHR ''+'' then map_option int (digit_groups 0 False r)
          else map_option int (digit_groups 0 False (c # r)))"

section \<open>Time\<close>

text \<open>
  \<^verbatim>\<open>time.gmtime(timestamp)\<close> for an integer timestamp, with the fields the connector reads.
  \<open>civil\<close> is the proleptic Gregorian calendar in UTC: \<open>tm_wday\<close> counts from Monday = 0 and
  1 January 1970 was a Thursday. \<open>gmtime\<close> adds the limits of CPython on 64-bit Linux:
  a timestamp that does not fit the 64-bit \<^verbatim>\<open>time_t\<close> is an \<^verbatim>\<open>OverflowError\<close>, one whose year
  does not fit the C library's 32-bit \<^verbatim>\<open>tm_year\<close> is an \<^verbatim>\<open>OSError\<close>.
\<close>

record struct_time =
  tm_year :: int
  tm_mon :: int
  tm_mday :: int
  tm_hour :: int
  tm_wday :: int

definition civil :: "int \<Rightarrow> struct_time" where
  "civil t =
     (let days = t div 86400;
          secs = t mod 86400;
          z = days + 719468;
          era = z div 146097;
          doe = z mod 146097;
          yoe = (doe - doe div 1460 + doe div 36524 - doe div 146096) div 365;
          doy = doe - (365 * yoe + yoe div 4 - yoe div 100);
          mp = (5 * doy + 2) div 153;
          m = (if mp < 10 then mp + 3 else mp - 9)
      in \<lparr> tm_year = yoe + era * 400 + (if m \<le> 2 then 1 else 0),
           tm_mon = m,
           tm_mday = doy - (153 * mp + 2) div 5 + 1,
           tm_hour = secs div 3600,
           tm_wday = (days + 3) mod 7 \<rparr>)"

definition in_range :: "int \<Rightarrow> bool" where
  "in_range t = (- 67768040609740800 \<le> t \<and> t \<le> 67768036191676799)"

definition gmtime :: "int \<Rightarrow> error + struct_time" where
  "gmtime t =
     (if t < - (2 ^ 63) \<or> 2 ^ 63 \<le> t then Inl OverflowError
      else if \<not> in_range t then Inl OSError
      else Inr (civil t))"

section \<open>Keys and tokens\<close>

text \<open>
  \<^verbatim>\<open>get_note_key\<close> formats its argument with \<^verbatim>\<open>%s\<close>; it is called with a timestamp (the
  caller passes \<open>str timestamp\<close> here), with \<^verbatim>\<open>"*"\<close> and with \<^verbatim>\<open>''\<close>.
\<close>

definition get_note_key :: "string \<Rightarrow> string" where
  "get_note_key timestamp = ''note_'' @ timestamp"

definition get_word_key :: "string \<Rightarrow> string" where
  "get_word_key word = ''w_'' @ lower word"

text \<open>The two loops of \<^verbatim>\<open>get_note_tokens\<close>: a part's key is appended unless it is there already.\<close>

fun add_parts :: "string list \<Rightarrow> string list \<Rightarrow> string list" where
  "add_parts tokens [] = tokens"
| "add_parts tokens (part # parts) =
     (let token = get_word_key (lower part)
      in add_parts (if token \<notin> set tokens then tokens @ [get_word_key (lower part)] else tokens)
           parts)"

definition temporal_tokens :: "struct_time \<Rightarrow> string list" where
  "temporal_tokens note_time =
     [''year_'' @ str (tm_year note_time),
      ''month_'' @ str (tm_mon note_time),
      ''day_'' @ str (tm_mday note_time),
      ''hour_'' @ str (tm_hour note_time),
      ''weekday_'' @ str (tm_wday note_time)]"

definition text_tokens :: "string \<Rightarrow> string list" where
  "text_tokens line = add_parts (add_parts [] (findall_words line)) (findall_tags line)"

definition get_note_tokens :: "int \<Rightarrow> string \<Rightarrow> error + string list" where
  "get_note_tokens timestamp line =
     (case gmtime timestamp of
        Inl e \<Rightarrow> Inl e
      | Inr note_time \<Rightarrow> Inr (text_tokens line @ temporal_tokens note_time))"

section \<open>The Redis store\<close>

text \<open>
  The store behind \<^verbatim>\<open>redis.StrictRedis\<close>: one key space, where a key holds a string or a
  set of members. Keys, members and values are the strings that their UTF-8 bytes decode
  to. The store is an association list, read through \<open>map_of\<close>; a set is kept as a list of
  its members, whose order is never observable (the connector sorts what it reads from a
  set, or returns a set). The commands are the ones the connector sends, with the server's
  behaviour: a set command on a key holding a string is refused, a set that loses its last
  member is removed with its key, \<^verbatim>\<open>MGET\<close> gives \<^verbatim>\<open>None\<close> for a key that holds no string.
\<close>

datatype rval = RString string | RSet "string list"

type_synonym redis = "(string \<times> rval) list"

text \<open>
  Glob matching of \<^verbatim>\<open>KEYS\<close>, with \<^verbatim>\<open>*\<close> and \<^verbatim>\<open>?\<close>; the connector's two patterns, \<^verbatim>\<open>note_*\<close> and
  \<^verbatim>\<open>w_*\<close>, use no other special character.
\<close>

fun glob_match :: "string \<Rightarrow> string \<Rightarrow> bool" where
  "glob_match [] s = (s = [])"
| "glob_match (p # ps) [] = (p = CHR ''*'' \<and> glob_match ps [])"
| "glob_match (p # ps) (c # cs) =
     (if p = CHR ''*'' then glob_match ps (c # cs) \<or> glob_match (p # ps) cs
      else (p = CHR ''?'' \<or> p = c) \<and> glob_match ps cs)"

definition keys :: "string \<Rightarrow> redis \<Rightarrow> string list" where
  "keys pattern db = [k \<leftarrow> map fst db. glob_match pattern k]"

definition exists_key :: "string \<Rightarrow> redis \<Rightarrow> bool" where
  "exists_key k db = (map_of db k \<noteq> None)"

definition get_value :: "string \<Rightarrow> redis \<Rightarrow> error + string option" where
  "get_value k db =
     (case map_of db k of
        None \<Rightarrow> Inr None
      | Some (RString v) \<Rightarrow> Inr (Some v)
      | Some (RSet ms) \<Rightarrow> Inl ResponseError)"

definition set_value :: "string \<Rightarrow> string \<Rightarrow> redis \<Rightarrow> redis" where
  "set_value k v db = AList.update k (RString v) db"

definition delete_key :: "string \<Rightarrow> redis \<Rightarrow> redis" where
  "delete_key k db = AList.delete k db"

definition sadd :: "string \<Rightarrow> string \<Rightarrow> redis \<Rightarrow> error + redis" where
  "sadd k m db =
     (case map_of db k of
        None \<Rightarrow> Inr (AList.update k (RSet [m]) db)
      | Some (RSet ms) \<Rightarrow> Inr (AList.update k (RSet (if m \<in> set ms then ms else ms @ [m])) db)
      | Some (RString v) \<Rightarrow> Inl ResponseError)"

definition srem :: "string \<Rightarrow> string \<Rightarrow> redis \<Rightarrow> error + redis" where
  "srem k m db =
     (case map_of db k of
        None \<Rightarrow> Inr db
      | Some (RSet ms) \<Rightarrow>
          Inr (if removeAll m ms = [] then AList.delete k db
               else AList.update k (RSet (removeAll m ms)) db)
      | Some (RString v) \<Rightarrow> Inl ResponseError)"

definition smembers :: "string \<Rightarrow> redis \<Rightarrow> error + string list" where
  "smembers k db =
     (case map_of db k of
        None \<Rightarrow> Inr []
      | Some (RSet ms) \<Rightarrow> Inr ms
      | Some (RString v) \<Rightarrow> Inl ResponseError)"

fun members_of :: "string list \<Rightarrow> redis \<Rightarrow> error + string list list" where
  "members_of [] db = Inr []"
| "members_of (k # ks) db =
     (case smembers k db of
        Inl e \<Rightarrow> Inl e
      | Inr ms \<Rightarrow> (case members_of ks db of Inl e \<Rightarrow> Inl e | Inr rest \<Rightarrow> Inr (ms # rest)))"

definition sinter :: "string list \<Rightarrow> redis \<Rightarrow> error + string list" where
  "sinter ks db =
     (case members_of ks db of
        Inl e \<Rightarrow> Inl e
      | Inr [] \<Rightarrow> Inl ResponseError
      | Inr (ms # rest) \<Rightarrow> Inr (remdups [m \<leftarrow> ms. list_all (\<lambda>r. m \<in> set r) rest]))"

definition sunion :: "string list \<Rightarrow> redis \<Rightarrow> error + string list" where
  "sunion ks db =
     (case members_of ks db of
        Inl e \<Rightarrow> Inl e
      | Inr [] \<Rightarrow> Inl ResponseError
      | Inr (ms # rest) \<Rightarrow> Inr (remdups (concat (ms # rest))))"

definition mget :: "string list \<Rightarrow> redis \<Rightarrow> string option list" where
  "mget ks db = map (\<lambda>k. case map_of db k of Some (RString v) \<Rightarrow> Some v | _ \<Rightarrow> None) ks"

section \<open>The note repository\<close>

fun sadd_each :: "string list \<Rightarrow> string \<Rightarrow> redis \<Rightarrow> error + redis" where
  "sadd_each [] timestamp db = Inr db"
| "sadd_each (token # tokens) timestamp db =
     (case sadd token timestamp db of
        Inl e \<Rightarrow> Inl e
      | Inr db' \<Rightarrow> sadd_each tokens timestamp db')"

fun srem_each :: "string list \<Rightarrow> string \<Rightarrow> redis \<Rightarrow> error + redis" where
  "srem_each [] timestamp db = Inr db"
| "srem_each (token # tokens) timestamp db =
     (case srem token timestamp db of
        Inl e \<Rightarrow> Inl e
      | Inr db' \<Rightarrow> srem_each tokens timestamp db')"

text \<open>
  The client sends the integer timestamp as its decimal text, both as a set member and
  inside the note's key. A call that raises returns the error; the store it leaves behind
  is not part of the model.
\<close>

definition add_redis_note :: "int \<Rightarrow> string \<Rightarrow> redis \<Rightarrow> error + redis" where
  "add_redis_note timestamp note db =
     (case get_note_tokens timestamp note of
        Inl e \<Rightarrow> Inl e
      | Inr tokens \<Rightarrow>
          (case sadd_each tokens (str timestamp) db of
             Inl e \<Rightarrow> Inl e
           | Inr db' \<Rightarrow> Inr (set_value (get_note_key (str timestamp)) note db')))"

definition delete_redis_note :: "int \<Rightarrow> redis \<Rightarrow> error + redis" where
  "delete_redis_note timestamp db =
     (if \<not> exists_key (get_note_key (str timestamp)) db then Inr db
      else
        (case get_value (get_note_key (str timestamp)) db of
           Inl e \<Rightarrow> Inl e
         | Inr None \<Rightarrow> Inl AttributeError
         | Inr (Some line) \<Rightarrow>
             (case get_note_tokens timestamp line of
                Inl e \<Rightarrow> Inl e
              | Inr tokens \<Rightarrow>
                  (case srem_each tokens (str timestamp) db of
                     Inl e \<Rightarrow> Inl e
                   | Inr db' \<Rightarrow> Inr (delete_key (get_note_key (str timestamp)) db')))))"

definition save_note :: "int \<Rightarrow> string \<Rightarrow> redis \<Rightarrow> error + redis" where
  "save_note timestamp note db = add_redis_note timestamp note db"

definition delete_note :: "int \<Rightarrow> redis \<Rightarrow> error + redis" where
  "delete_note timestamp db = delete_redis_note timestamp db"

definition update_note :: "int \<Rightarrow> int \<Rightarrow> string \<Rightarrow> redis \<Rightarrow> error + redis" where
  "update_note original_timestamp new_timestamp new_note db =
     (case delete_note original_timestamp db of
        Inl e \<Rightarrow> Inl e
      | Inr db' \<Rightarrow> save_note new_timestamp new_note db')"

definition get_common_words :: "redis \<Rightarrow> string set" where
  "get_common_words db = set (map (drop 2) (keys (get_word_key ''*'') db))"

section \<open>The search resolver\<close>

text \<open>
  Modelled from the spec: the search request class of \<^verbatim>\<open>ashaw_notes.utils.search\<close>, which is
  not among the sources. The spec gives it two fields, the inclusion and the exclusion
  terms, each a set of strings; a set is a list here, empty when the field is falsy.
\<close>

record search_request =
  inclusion_terms :: "string list"
  exclusion_terms :: "string list"

definition difference :: "string list \<Rightarrow> string list \<Rightarrow> string list" where
  "difference a b = [x \<leftarrow> a. x \<notin> set b]"

text \<open>The keys of the pattern \<^verbatim>\<open>note_*\<close>, as a set, each without its first five characters.\<close>

definition note_key_suffixes :: "redis \<Rightarrow> string list" where
  "note_key_suffixes db =
     map (drop (length (get_note_key []))) (remdups (keys (get_note_key ''*'') db))"

definition candidate_timestamps :: "search_request \<Rightarrow> redis \<Rightarrow> error + string list" where
  "candidate_timestamps search_request db =
     (if inclusion_terms search_request \<noteq> [] then
        (case sinter (map get_word_key (inclusion_terms search_request)) db of
           Inl e \<Rightarrow> Inl e
         | Inr timestamps \<Rightarrow>
             if exclusion_terms search_request \<noteq> [] then
               (case sunion (map get_word_key (exclusion_terms search_request)) db of
                  Inl e \<Rightarrow> Inl e
                | Inr excluded \<Rightarrow> Inr (difference timestamps excluded))
             else Inr timestamps)
      else if exclusion_terms search_request \<noteq> [] then
        (case sunion (map get_word_key (exclusion_terms search_request)) db of
           Inl e \<Rightarrow> Inl e
         | Inr exclusion_timestamps \<Rightarrow>
             Inr (difference (remdups (note_key_suffixes db)) exclusion_timestamps))
      else Inr (note_key_suffixes db))"

fun to_ints :: "string list \<Rightarrow> error + int list" where
  "to_ints [] = Inr []"
| "to_ints (s # ss) =
     (case py_int s of
        None \<Rightarrow> Inl ValueError
      | Some i \<Rightarrow> (case to_ints ss of Inl e \<Rightarrow> Inl e | Inr r \<Rightarrow> Inr (i # r)))"

fun decode_each :: "string option list \<Rightarrow> error + string list" where
  "decode_each [] = Inr []"
| "decode_each (note # notes) =
     (case note of
        None \<Rightarrow> Inl AttributeError
      | Some v \<Rightarrow> (case decode_each notes of Inl e \<Rightarrow> Inl e | Inr r \<Rightarrow> Inr (v # r)))"

definition sorted_timestamps :: "search_request \<Rightarrow> redis \<Rightarrow> error + int list" where
  "sorted_timestamps search_request db =
     (case candidate_timestamps search_request db of
        Inl e \<Rightarrow> Inl e
      | Inr raw \<Rightarrow> (case to_ints raw of Inl e \<Rightarrow> Inl e | Inr ts \<Rightarrow> Inr (sort ts)))"

definition find_redis_notes ::
  "search_request \<Rightarrow> redis \<Rightarrow> error + (int option \<times> string option) list" where
  "find_redis_notes search_request db =
     (case sorted_timestamps search_request db of
        Inl e \<Rightarrow> Inl e
      | Inr timestamps \<Rightarrow>
          if timestamps = [] then Inr [(None, None)]
          else
            (case decode_each (mget (map (\<lambda>t. get_note_key (str t)) timestamps) db) of
               Inl e \<Rightarrow> Inl e
             | Inr notes \<Rightarrow> Inr (zip (map Some timestamps) (map Some notes))))"

section \<open>Sequences of calls\<close>

datatype call = Save int string | Delete int | Update int int string

fun perform :: "call \<Rightarrow> redis \<Rightarrow> error + redis" where
  "perform (Save timestamp note) db = save_note timestamp note db"
| "perform (Delete timestamp) db = delete_note timestamp db"
| "perform (Update original_timestamp new_timestamp new_note) db =
     update_note original_timestamp new_timestamp new_note db"

fun run :: "call list \<Rightarrow> redis \<Rightarrow> error + redis" where
  "run [] db = Inr db"
| "run (c # cs) db = (case perform c db of Inl e \<Rightarrow> Inl e | Inr db' \<Rightarrow> run cs db')"

section \<open>What the store means\<close>

text \<open>
  The postings set of a token, the note stored at a timestamp, and whether a note's tokens
  include a given token.
\<close>

definition postings :: "redis \<Rightarrow> string \<Rightarrow> string set" where
  "postings db token = (case map_of db token of Some (RSet ms) \<Rightarrow> set ms | _ \<Rightarrow> {})"

definition stored_note :: "redis \<Rightarrow> int \<Rightarrow> string option" where
  "stored_note db timestamp =
     (case map_of db (get_note_key (str timestamp)) of Some (RString v) \<Rightarrow> Some v | _ \<Rightarrow> None)"

definition tokenizes :: "int \<Rightarrow> string \<Rightarrow> string \<Rightarrow> bool" where
  "tokenizes timestamp line token =
     (case get_note_tokens timestamp line of Inl e \<Rightarrow> False | Inr tokens \<Rightarrow> token \<in> set tokens)"

text \<open>
  The index invariant of the spec: a timestamp is in a token's postings set if and only
  if the note stored at the timestamp tokenizes to include the token.
\<close>

definition postings_match :: "redis \<Rightarrow> bool" where
  "postings_match db =
     (\<forall>token timestamp.
        (str timestamp \<in> postings db token) =
        (\<exists>line. stored_note db timestamp = Some line \<and> tokenizes timestamp line token))"

text \<open>
  A store as the connector writes it: strings under note keys of timestamps that
  \<open>gmtime\<close> accepts, and non-empty sets whose members are timestamps in decimal.
\<close>

definition well_formed :: "redis \<Rightarrow> bool" where
  "well_formed db =
     ((\<forall>k v. map_of db k = Some (RString v) \<longrightarrow> (\<exists>t. in_range t \<and> k = get_note_key (str t))) \<and>
      (\<forall>k ms. map_of db k = Some (RSet ms) \<longrightarrow> ms \<noteq> [] \<and> (\<forall>m \<in> set ms. \<exists>t. m = str t)))"

definition index_ok :: "redis \<Rightarrow> bool" where
  "index_ok db = (well_formed db \<and> postings_match db)"

text \<open>
  A sequence of calls that never saves onto a stored note: \<open>fresh live calls\<close>, where
  \<open>live\<close> is the set of timestamps that hold a note before the calls. An update may reuse
  the timestamp it has just deleted. The timestamps saved are ones \<open>gmtime\<close> accepts.
\<close>

fun fresh :: "int set \<Rightarrow> call list \<Rightarrow> bool" where
  "fresh live [] = True"
| "fresh live (Save t note # cs) = (t \<notin> live \<and> in_range t \<and> fresh (insert t live) cs)"
| "fresh live (Delete t # cs) = fresh (live - {t}) cs"
| "fresh live (Update t t' note # cs) =
     (t' \<notin> live - {t} \<and> in_range t' \<and> fresh (insert t' (live - {t})) cs)"

text \<open>
  The spec's ordered-unique sequence: every element once, in the order of first occurrence.
\<close>

function ordered_unique :: "'a list \<Rightarrow> 'a list" where
  "ordered_unique [] = []"
| "ordered_unique (x # xs) = x # ordered_unique (removeAll x xs)"
  by pat_completeness auto
termination
  by (relation "measure length") (auto simp: less_Suc_eq_le)

text \<open>
  The spec's four request shapes, on sets: the intersection of the inclusion terms'
  postings, the union of the exclusion terms' postings, and all note timestamps (the keys
  that start with \<^verbatim>\<open>note_\<close>, without that prefix).
\<close>

definition all_note_timestamps :: "redis \<Rightarrow> string set" where
  "all_note_timestamps db = {drop 5 k | k. k \<in> fst ` set db \<and> take 5 k = ''note_''}"

definition resolve_spec :: "search_request \<Rightarrow> redis \<Rightarrow> string set" where
  "resolve_spec request db =
     (let included = (\<Inter>term \<in> set (inclusion_terms request). postings db (get_word_key term));
          excluded = (\<Union>term \<in> set (exclusion_terms request). postings db (get_word_key term))
      in if inclusion_terms request \<noteq> [] \<and> exclusion_terms request \<noteq> [] then included - excluded
         else if inclusion_terms request \<noteq> [] then included
         else if exclusion_terms request \<noteq> [] then all_note_timestamps db - excluded
         else all_note_timestamps db)"

section \<open>The tag pattern\<close>

text \<open>
  C7 (every tag token consists of \<^verbatim>\<open>#\<close> and alphanumeric, hyphen and underscore characters
  only): the class \<^verbatim>\<open>[A-z0-9-_]\<close> spans the six characters between \<^verbatim>\<open>Z\<close> and \<^verbatim>\<open>a\<close> as well, so
  the text \<^verbatim>\<open>#a^b\<close> gives the tag token \<^verbatim>\<open>#a^b\<close>, stored under the key \<^verbatim>\<open>w_#a^b\<close>. Evaluation of
  the tokenizer at timestamp 0:
\<close>

theorem tag_token_with_caret:
  "get_note_tokens 0 ''#a^b'' =
     Inr [''w_a'', ''w_b'', ''w_#a^b'',
          ''year_1970'', ''month_1'', ''day_1'', ''hour_0'', ''weekday_3'']"
  by code_simp

section \<open>Empty search results\<close>

theorem find_empty_not_empty_sequence:
  "sorted_timestamps \<lparr>inclusion_terms = [''nonexistentword''], exclusion_terms = []\<rparr> [] = Inr [] \<and>
   find_redis_notes \<lparr>inclusion_terms = [''nonexistentword''], exclusion_terms = []\<rparr> [] \<noteq> Inr []"
  by code_simp

text \<open>
  C1, as the code has it: for every search request whose resolved, sorted timestamp list
  is empty, \<^verbatim>\<open>find_redis_notes\<close> returns the one-element sequence holding the placeholder
  pair \<^verbatim>\<open>(None, None)\<close>, not the empty sequence.
\<close>

theorem find_empty_gives_placeholder:
  "sorted_timestamps search_request db = Inr [] \<Longrightarrow>
   find_redis_notes search_request db = Inr [(None, None)]"
  by (simp add: find_redis_notes_def)

theorem find_empty_gives_placeholder_witness:
  "sorted_timestamps \<lparr>inclusion_terms = [''nonexistentword''], exclusion_terms = []\<rparr> [] = Inr [] \<and>
   find_redis_notes \<lparr>inclusion_terms = [''nonexistentword''], exclusion_terms = []\<rparr> [] =
     Inr [(None, None)]"
proof -
  have h: "sorted_timestamps \<lparr>inclusion_terms = [''nonexistentword''], exclusion_terms = []\<rparr> []
             = Inr []"
    by code_simp
  show ?thesis
    using h find_empty_gives_placeholder [OF h] by simp
qed

section \<open>Deleting a missing note\<close>

lemma not_exists_delete_key: "\<not> exists_key k (delete_key k db)"
  by (simp add: exists_key_def delete_key_def delete_conv')

text \<open>
  C9: \<^verbatim>\<open>delete(ts)\<close> with no value under the note's key returns the store as it is and raises
  nothing; and a \<^verbatim>\<open>delete(ts)\<close> that has returned leaves a store on which a second
  \<^verbatim>\<open>delete(ts)\<close> changes nothing and raises nothing.
\<close>

theorem delete_missing_is_noop:
  "(\<not> exists_key (get_note_key (str timestamp)) db \<longrightarrow> delete_note timestamp db = Inr db) \<and>
   (delete_note timestamp db = Inr db' \<longrightarrow> delete_note timestamp db' = Inr db')"
  by (auto simp: delete_note_def delete_redis_note_def not_exists_delete_key
      split: if_splits sum.splits option.splits)

theorem delete_missing_is_noop_witness:
  "\<not> exists_key (get_note_key (str 7)) [(''w_foo'', RSet [''1'']), (''note_1'', RString ''foo'')] \<and>
   delete_note 7 [(''w_foo'', RSet [''1'']), (''note_1'', RString ''foo'')] =
     Inr [(''w_foo'', RSet [''1'']), (''note_1'', RString ''foo'')] \<and>
   delete_note 1 [(''w_foo'', RSet [''1'']), (''note_1'', RString ''foo'')] = Inr [] \<and>
   delete_note 1 [] = Inr []"
proof -
  let ?db = "[(''w_foo'', RSet [''1'']), (''note_1'', RString ''foo'')]"
  have a: "\<not> exists_key (get_note_key (str 7)) ?db"
    by code_simp
  have b: "delete_note 1 ?db = Inr []"
    by code_simp
  show ?thesis
    using a b delete_missing_is_noop [of 7 ?db] delete_missing_is_noop [of 1 ?db "[]"]
    by simp
qed

end
